theory Spec2Isabelle
  imports Complex_Main
begin

section \<open>The GoCert client (src/gocert.py)\<close>

text \<open>
  The module is a thin client over the \<open>requests\<close> library: seven methods of the class
  \<open>GoCert\<close>, each sending one HTTP request and turning the outcome into a return value
  and log records. The embedding makes explicit what Python leaves implicit:
  \<^item> an exception is a value \<open>Inl e\<close> of the sum \<open>py_exception + 'a\<close>;
  \<^item> the local variable \<open>req\<close> of each method is an \<open>option\<close>: it is unbound
    (\<open>None\<close>) until \<open>requests.get\<close>/\<open>requests.post\<close> has returned, and reading an
    unbound local raises \<open>UnboundLocalError\<close>;
  \<^item> the network is a function from the request sent to the outcome of the HTTP call;
  \<^item> the log is the list of records a call emits;
  \<^item> the object \<open>self\<close> is passed in and returned.
\<close>

subsection \<open>Python values\<close>

text \<open>
  The values \<open>Response.json()\<close> can produce. A JSON number with a fraction or an exponent
  is a Python float; only its truth value and its truncation are ever used, and both are
  functions of the number it denotes, so a finite float is represented by that number.
  A dict is an association list with one binding per key, read with \<open>map_of\<close>.
\<close>

datatype pyfloat = Finite rat | PosInf | NegInf | NaN

datatype pyval =
    PNone
  | PBool bool
  | PInt int
  | PFloat pyfloat
  | PStr string
  | PList "pyval list"
  | PDict "(string \<times> pyval) list"

datatype py_exception =
    ConnectionError   \<comment> \<open>requests.exceptions.ConnectionError, a RequestException\<close>
  | SSLError          \<comment> \<open>requests.exceptions.SSLError, a RequestException\<close>
  | HTTPError         \<comment> \<open>requests.exceptions.HTTPError, a RequestException\<close>
  | JSONDecodeError   \<comment> \<open>raised by Response.json() on a body that is not JSON\<close>
  | OSError
  | UnboundLocalError
  | AttributeError
  | TypeError
  | ValueError
  | OverflowError
  | RecursionError
  | UnicodeEncodeError   \<comment> \<open>a ValueError: a header value outside latin-1\<close>
  | LocationParseError   \<comment> \<open>urllib3.exceptions.LocationParseError, a ValueError\<close>
  | InvalidHeader        \<comment> \<open>requests.exceptions.InvalidHeader, a RequestException\<close>
  | Timeout              \<comment> \<open>requests.exceptions.Timeout, a RequestException\<close>

text \<open>Truth value of a Python object, as \<open>if x\<close> and \<open>x if c else y\<close> test it.\<close>

fun py_truthy :: "pyval \<Rightarrow> bool" where
  "py_truthy PNone = False"
| "py_truthy (PBool b) = b"
| "py_truthy (PInt n) = (n \<noteq> 0)"
| "py_truthy (PFloat (Finite q)) = (q \<noteq> 0)"
| "py_truthy (PFloat PosInf) = True"
| "py_truthy (PFloat NegInf) = True"
| "py_truthy (PFloat NaN) = True"
| "py_truthy (PStr s) = (s \<noteq> [])"
| "py_truthy (PList xs) = (xs \<noteq> [])"
| "py_truthy (PDict kvs) = (kvs \<noteq> [])"

text \<open>
  \<open>obj.get(key, default)\<close>: only a dict has the method; on every other value the
  attribute lookup raises \<open>AttributeError\<close>. \<open>obj.get(key)\<close> is \<open>py_get obj key PNone\<close>.
\<close>

fun py_get :: "pyval \<Rightarrow> string \<Rightarrow> pyval \<Rightarrow> py_exception + pyval" where
  "py_get (PDict kvs) k d = Inr (case map_of kvs k of None \<Rightarrow> d | Some v \<Rightarrow> v)"
| "py_get PNone k d = Inl AttributeError"
| "py_get (PBool b) k d = Inl AttributeError"
| "py_get (PInt n) k d = Inl AttributeError"
| "py_get (PFloat f) k d = Inl AttributeError"
| "py_get (PStr s) k d = Inl AttributeError"
| "py_get (PList xs) k d = Inl AttributeError"

text \<open>
  The builtin \<open>int(x)\<close>. Parsing a \<open>str\<close> is left to the parameter \<open>int_of_str\<close>
  (\<open>None\<close> where Python raises \<open>ValueError\<close>); a float is truncated towards zero.
\<close>

fun py_int :: "(string \<Rightarrow> int option) \<Rightarrow> pyval \<Rightarrow> py_exception + int" where
  "py_int int_of_str (PInt n) = Inr n"
| "py_int int_of_str (PBool b) = Inr (if b then 1 else 0)"
| "py_int int_of_str (PFloat (Finite q)) = Inr (if 0 \<le> q then \<lfloor>q\<rfloor> else \<lceil>q\<rceil>)"
| "py_int int_of_str (PFloat PosInf) = Inl OverflowError"
| "py_int int_of_str (PFloat NegInf) = Inl OverflowError"
| "py_int int_of_str (PFloat NaN) = Inl ValueError"
| "py_int int_of_str (PStr s) =
     (case int_of_str s of None \<Rightarrow> Inl ValueError | Some n \<Rightarrow> Inr n)"
| "py_int int_of_str PNone = Inl TypeError"
| "py_int int_of_str (PList xs) = Inl TypeError"
| "py_int int_of_str (PDict kvs) = Inl TypeError"

text \<open>
  \<open>for x in obj\<close>: the elements of a list, the keys of a dict, the characters of a str;
  anything else is not iterable.
\<close>

fun py_iter :: "pyval \<Rightarrow> py_exception + pyval list" where
  "py_iter (PList xs) = Inr xs"
| "py_iter (PDict kvs) = Inr (map (\<lambda>kv. PStr (fst kv)) kvs)"
| "py_iter (PStr s) = Inr (map (\<lambda>c. PStr [c]) s)"
| "py_iter PNone = Inl TypeError"
| "py_iter (PBool b) = Inl TypeError"
| "py_iter (PInt n) = Inl TypeError"
| "py_iter (PFloat f) = Inl TypeError"

text \<open>Reading a local variable: unbound locals raise.\<close>

definition read_local :: "'a option \<Rightarrow> py_exception + 'a" where
  "read_local v = (case v of None \<Rightarrow> Inl UnboundLocalError | Some x \<Rightarrow> Inr x)"

subsection \<open>The requests library\<close>

datatype http_method = GET | POST

record request =
  http_method :: http_method
  req_url :: string
  verify :: "string option"
  json_arg :: "(string \<times> string) list option"
  headers :: "(string \<times> string) list"
  data :: "string option"

text \<open>
  A response as the client reads it: \<open>status_code\<close>, \<open>text\<close> and what \<open>json()\<close>
  does: the value it returns, or the exception it raises (\<open>JSONDecodeError\<close> on a
  body that is not JSON, \<open>ValueError\<close> on an integer too long to convert,
  \<open>RecursionError\<close> on a body nested too deep).
\<close>

record response =
  status_code :: int
  resp_text :: string
  resp_json :: "py_exception + pyval"

text \<open>
  What can happen to one HTTP call: the server answers, the connection fails, the TLS
  handshake fails, the CA bundle named by \<open>verify\<close> cannot be read, or the call raises
  some other exception. \<open>requests\<close> does not wrap everything in a
  \<open>RequestException\<close>: a header value ending in a newline makes \<open>http.client\<close> raise
  \<open>ValueError\<close>, a header value outside latin-1 raises \<open>UnicodeEncodeError\<close>, and a
  host label of more than 63 characters makes \<open>urllib3\<close> raise \<open>LocationParseError\<close>.
\<close>

datatype http_outcome =
    Responded response
  | TransportFailure
  | TLSFailure
  | CABundleUnreadable
  | CallRaises py_exception

text \<open>\<open>requests.get\<close> and \<open>requests.post\<close>: return the response or raise.\<close>

fun requests_call :: "http_outcome \<Rightarrow> py_exception + response" where
  "requests_call (Responded r) = Inr r"
| "requests_call TransportFailure = Inl ConnectionError"
| "requests_call TLSFailure = Inl SSLError"
| "requests_call CABundleUnreadable = Inl OSError"
| "requests_call (CallRaises e) = Inl e"

text \<open>
  \<open>Response.raise_for_status()\<close> raises \<open>HTTPError\<close> for a client error (4xx) or a
  server error (5xx) and does nothing for any other status.
\<close>

definition raise_for_status :: "response \<Rightarrow> py_exception option" where
  "raise_for_status r =
     (if 400 \<le> status_code r \<and> status_code r < 600 then Some HTTPError else None)"

text \<open>The clause \<open>except (requests.RequestException, OSError)\<close>.\<close>

fun except_matches :: "py_exception \<Rightarrow> bool" where
  "except_matches ConnectionError = True"
| "except_matches SSLError = True"
| "except_matches HTTPError = True"
| "except_matches JSONDecodeError = True"
| "except_matches OSError = True"
| "except_matches UnboundLocalError = False"
| "except_matches AttributeError = False"
| "except_matches TypeError = False"
| "except_matches ValueError = False"
| "except_matches OverflowError = False"
| "except_matches RecursionError = False"
| "except_matches UnicodeEncodeError = False"
| "except_matches LocationParseError = False"
| "except_matches InvalidHeader = True"
| "except_matches Timeout = True"

text \<open>
  The body of every \<open>try\<close> block of the module:
  \<^verbatim>\<open>req = requests.<method>(...); req.raise_for_status()\<close>.
  It yields the binding of \<open>req\<close> when the block is left and the exception that left it,
  if any: when the call itself raises, the assignment never happens.
\<close>

definition try_block :: "http_outcome \<Rightarrow> response option \<times> py_exception option" where
  "try_block out =
     (case requests_call out of
        Inl e \<Rightarrow> (None, Some e)
      | Inr r \<Rightarrow> (Some r, raise_for_status r))"

subsection \<open>Logging\<close>

datatype log_level = INFO | WARNING | ERROR

text \<open>A log record keeps the format string and its arguments, as \<open>logging\<close> does.\<close>

datatype log_record = Log log_level string "pyval list"

subsection \<open>The data classes\<close>

text \<open>
  \<open>CertificateRequest\<close> is a frozen dataclass annotated \<open>id: int, csr: str,
  certificate: str\<close>. Python does not check annotations, so a field holds whatever value
  the constructor is given.
\<close>

record CertificateRequest =
  id' :: pyval
  csr :: pyval
  certificate :: pyval

record CertificateRequests =
  rows :: "CertificateRequest list"

subsection \<open>The client\<close>

record GoCert =
  url :: string
  ca_path :: "string option"

definition API_VERSION :: string where
  "API_VERSION = ''v1''"

definition init :: "string \<Rightarrow> string option \<Rightarrow> GoCert" where
  "init u p = \<lparr>url = u, ca_path = p\<rparr>"

text \<open>
  What one method call does: the request it sent, the records it logged, the object
  afterwards, and the value it returned or the exception it raised.
\<close>

record 'a run =
  sent :: request
  logged :: "log_record list"
  self_after :: GoCert
  outcome :: "py_exception + 'a"

text \<open>\<open>self.ca_path if self.ca_path else None\<close>\<close>

definition verify_arg :: "GoCert \<Rightarrow> string option" where
  "verify_arg self =
     (case ca_path self of
        None \<Rightarrow> None
      | Some p \<Rightarrow> (if p \<noteq> [] then Some p else None))"

definition bearer :: "string \<Rightarrow> (string \<times> string) list" where
  "bearer token = [(''Authorization'', ''Bearer '' @ token)]"

definition login_request :: "GoCert \<Rightarrow> string \<Rightarrow> string \<Rightarrow> request" where
  "login_request self username password =
     \<lparr>http_method = POST, req_url = url self @ ''/login'', verify = verify_arg self,
      json_arg = Some [(''username'', username), (''password'', password)],
      headers = [], data = None\<rparr>"

definition login ::
  "(request \<Rightarrow> http_outcome) \<Rightarrow> GoCert \<Rightarrow> string \<Rightarrow> string \<Rightarrow> (string option) run" where
  "login net self username password =
     (let rq = login_request self username password;
          fin = (\<lambda>l out. \<lparr>sent = rq, logged = l, self_after = self, outcome = out\<rparr>)
      in case try_block (net rq) of
           (req, Some e) \<Rightarrow>
             (if except_matches e then
                (case read_local req of
                   Inl e' \<Rightarrow> fin [] (Inl e')
                 | Inr r \<Rightarrow>
                     fin [Log ERROR ''couldn't log in: code %s, %s''
                            [PInt (status_code r), PStr (resp_text r)]]
                         (Inr None))
              else fin [] (Inl e))
         | (req, None) \<Rightarrow>
             (case read_local req of
                Inl e' \<Rightarrow> fin [Log INFO ''logged in to GoCert successfully'' []] (Inl e')
              | Inr r \<Rightarrow>
                  fin [Log INFO ''logged in to GoCert successfully'' []]
                      (Inr (Some (resp_text r)))))"

definition token_is_valid_request :: "GoCert \<Rightarrow> string \<Rightarrow> request" where
  "token_is_valid_request self token =
     \<lparr>http_method = GET, req_url = url self @ ''/accounts'', verify = verify_arg self,
      json_arg = None, headers = bearer token, data = None\<rparr>"

definition token_is_valid ::
  "(request \<Rightarrow> http_outcome) \<Rightarrow> GoCert \<Rightarrow> string \<Rightarrow> bool run" where
  "token_is_valid net self token =
     (let rq = token_is_valid_request self token;
          fin = (\<lambda>l out. \<lparr>sent = rq, logged = l, self_after = self, outcome = out\<rparr>)
      in case try_block (net rq) of
           (req, Some e) \<Rightarrow> (if except_matches e then fin [] (Inr False) else fin [] (Inl e))
         | (req, None) \<Rightarrow> fin [] (Inr True))"

definition status_request :: "GoCert \<Rightarrow> request" where
  "status_request self =
     \<lparr>http_method = GET, req_url = url self @ ''/status'', verify = verify_arg self,
      json_arg = None, headers = [], data = None\<rparr>"

definition is_api_available :: "(request \<Rightarrow> http_outcome) \<Rightarrow> GoCert \<Rightarrow> bool run" where
  "is_api_available net self =
     (let rq = status_request self;
          fin = (\<lambda>l out. \<lparr>sent = rq, logged = l, self_after = self, outcome = out\<rparr>)
      in case try_block (net rq) of
           (req, Some e) \<Rightarrow> (if except_matches e then fin [] (Inr False) else fin [] (Inl e))
         | (req, None) \<Rightarrow> fin [] (Inr True))"

text \<open>\<open>req.json()\<close>\<close>

definition json_call :: "response \<Rightarrow> py_exception + pyval" where
  "json_call r = resp_json r"

text \<open>
  \<open>is_initialized\<close> is annotated \<open>-> bool\<close> but returns whatever the body holds under
  \<open>"initialized"\<close>, so its result is a Python value.
\<close>

definition is_initialized :: "(request \<Rightarrow> http_outcome) \<Rightarrow> GoCert \<Rightarrow> pyval run" where
  "is_initialized net self =
     (let rq = status_request self;
          fin = (\<lambda>l out. \<lparr>sent = rq, logged = l, self_after = self, outcome = out\<rparr>)
      in case try_block (net rq) of
           (req, Some e) \<Rightarrow>
             (if except_matches e then fin [] (Inr (PBool False)) else fin [] (Inl e))
         | (req, None) \<Rightarrow>
             (case read_local req of
                Inl e' \<Rightarrow> fin [] (Inl e')
              | Inr r \<Rightarrow>
                  (case json_call r of
                     Inl e' \<Rightarrow> fin [] (Inl e')
                   | Inr body \<Rightarrow> fin [] (py_get body ''initialized'' (PBool False)))))"

definition create_first_user_request :: "GoCert \<Rightarrow> string \<Rightarrow> string \<Rightarrow> request" where
  "create_first_user_request self username password =
     \<lparr>http_method = POST, req_url = url self @ ''/api/'' @ API_VERSION @ ''/accounts'',
      verify = verify_arg self,
      json_arg = Some [(''username'', username), (''password'', password)],
      headers = [], data = None\<rparr>"

text \<open>\<open>int(id) if id else None\<close>\<close>

definition int_if_truthy :: "(string \<Rightarrow> int option) \<Rightarrow> pyval \<Rightarrow> py_exception + int option" where
  "int_if_truthy int_of_str v =
     (if py_truthy v then
        (case py_int int_of_str v of Inl e \<Rightarrow> Inl e | Inr n \<Rightarrow> Inr (Some n))
      else Inr None)"

definition create_first_user ::
  "(string \<Rightarrow> int option) \<Rightarrow> (request \<Rightarrow> http_outcome) \<Rightarrow> GoCert \<Rightarrow> string \<Rightarrow> string \<Rightarrow>
   (int option) run" where
  "create_first_user int_of_str net self username password =
     (let rq = create_first_user_request self username password;
          fin = (\<lambda>l out. \<lparr>sent = rq, logged = l, self_after = self, outcome = out\<rparr>);
          info = Log INFO ''created the first user in GoCert.'' []
      in case try_block (net rq) of
           (req, Some e) \<Rightarrow>
             (if except_matches e then
                (case read_local req of
                   Inl e' \<Rightarrow> fin [] (Inl e')
                 | Inr r \<Rightarrow>
                     fin [Log WARNING ''couldn't create first user: code %s, %s''
                            [PInt (status_code r), PStr (resp_text r)]]
                         (Inr None))
              else fin [] (Inl e))
         | (req, None) \<Rightarrow>
             (case read_local req of
                Inl e' \<Rightarrow> fin [info] (Inl e')
              | Inr r \<Rightarrow>
                  (case json_call r of
                     Inl e' \<Rightarrow> fin [info] (Inl e')
                   | Inr body \<Rightarrow>
                       (case py_get body ''id'' PNone of
                          Inl e' \<Rightarrow> fin [info] (Inl e')
                        | Inr i \<Rightarrow> fin [info] (int_if_truthy int_of_str i)))))"

definition certificate_requests_request :: "GoCert \<Rightarrow> string \<Rightarrow> request" where
  "certificate_requests_request self token =
     \<lparr>http_method = GET,
      req_url = url self @ ''/api/'' @ API_VERSION @ ''/certificate_requests'',
      verify = verify_arg self, json_arg = None, headers = bearer token, data = None\<rparr>"

text \<open>
  One element of the comprehension:
  \<open>CertificateRequest(csr.get("id"), csr.get("csr"), csr.get("certificate"))\<close>.
\<close>

definition row_of :: "pyval \<Rightarrow> py_exception + CertificateRequest" where
  "row_of c =
     (case py_get c ''id'' PNone of
        Inl e \<Rightarrow> Inl e
      | Inr i \<Rightarrow>
          (case py_get c ''csr'' PNone of
             Inl e \<Rightarrow> Inl e
           | Inr s \<Rightarrow>
               (case py_get c ''certificate'' PNone of
                  Inl e \<Rightarrow> Inl e
                | Inr t \<Rightarrow> Inr \<lparr>id' = i, csr = s, certificate = t\<rparr>)))"

text \<open>The comprehension over the elements, left to right; the first exception ends it.\<close>

fun comprehension :: "pyval list \<Rightarrow> py_exception + CertificateRequest list" where
  "comprehension [] = Inr []"
| "comprehension (c # cs) =
     (case row_of c of
        Inl e \<Rightarrow> Inl e
      | Inr row \<Rightarrow>
          (case comprehension cs of
             Inl e \<Rightarrow> Inl e
           | Inr rest \<Rightarrow> Inr (row # rest)))"

text \<open>\<open>[... for csr in table] if table else []\<close>\<close>

definition rows_of_table :: "pyval \<Rightarrow> py_exception + CertificateRequest list" where
  "rows_of_table table =
     (if py_truthy table then
        (case py_iter table of Inl e \<Rightarrow> Inl e | Inr cs \<Rightarrow> comprehension cs)
      else Inr [])"

definition get_certificate_requests_table ::
  "(request \<Rightarrow> http_outcome) \<Rightarrow> GoCert \<Rightarrow> string \<Rightarrow> (CertificateRequests option) run" where
  "get_certificate_requests_table net self token =
     (let rq = certificate_requests_request self token;
          fin = (\<lambda>l out. \<lparr>sent = rq, logged = l, self_after = self, outcome = out\<rparr>)
      in case try_block (net rq) of
           (req, Some e) \<Rightarrow>
             (if except_matches e then
                (case read_local req of
                   Inl e' \<Rightarrow> fin [] (Inl e')
                 | Inr r \<Rightarrow>
                     fin [Log WARNING
                            ''couldn't retrieve certificate requests table: code %s, %s''
                            [PInt (status_code r), PStr (resp_text r)]]
                         (Inr None))
              else fin [] (Inl e))
         | (req, None) \<Rightarrow>
             (case read_local req of
                Inl e' \<Rightarrow> fin [] (Inl e')
              | Inr r \<Rightarrow>
                  (case json_call r of
                     Inl e' \<Rightarrow> fin [] (Inl e')
                   | Inr table \<Rightarrow>
                       (case rows_of_table table of
                          Inl e' \<Rightarrow> fin [] (Inl e')
                        | Inr rs \<Rightarrow> fin [] (Inr (Some \<lparr>rows = rs\<rparr>))))))"

definition post_csr_request :: "GoCert \<Rightarrow> string \<Rightarrow> string \<Rightarrow> request" where
  "post_csr_request self csr_text token =
     \<lparr>http_method = POST,
      req_url = url self @ ''/api/'' @ API_VERSION @ ''/certificate_requests'',
      verify = verify_arg self, json_arg = None, headers = bearer token,
      data = Some csr_text\<rparr>"

text \<open>\<open>post_csr\<close> has no \<open>return\<close>: it returns \<open>None\<close>, here the value of type \<open>unit\<close>.\<close>

definition post_csr ::
  "(request \<Rightarrow> http_outcome) \<Rightarrow> GoCert \<Rightarrow> string \<Rightarrow> string \<Rightarrow> unit run" where
  "post_csr net self csr_text token =
     (let rq = post_csr_request self csr_text token;
          fin = (\<lambda>l out. \<lparr>sent = rq, logged = l, self_after = self, outcome = out\<rparr>)
      in case try_block (net rq) of
           (req, Some e) \<Rightarrow>
             (if except_matches e then
                (case read_local req of
                   Inl e' \<Rightarrow> fin [] (Inl e')
                 | Inr r \<Rightarrow>
                     fin [Log ERROR ''couldn't post new certificate requests: code %s, %s''
                            [PInt (status_code r), PStr (resp_text r)]]
                         (Inr ()))
              else fin [] (Inl e))
         | (req, None) \<Rightarrow> fin [] (Inr ()))"

subsection \<open>Sequences of calls\<close>

text \<open>
  A caller uses one client object for many calls. A call names the method and its
  arguments; \<open>call_run\<close> dispatches it and keeps what every method has in common: the
  request sent and the object afterwards.
\<close>

datatype call =
    Login string string
  | TokenIsValid string
  | IsApiAvailable
  | IsInitialized
  | CreateFirstUser string string
  | GetCertificateRequestsTable string
  | PostCsr string string

fun call_run ::
  "(string \<Rightarrow> int option) \<Rightarrow> (request \<Rightarrow> http_outcome) \<Rightarrow> GoCert \<Rightarrow> call \<Rightarrow> request \<times> GoCert" where
  "call_run ios net self (Login u p) =
     (sent (login net self u p), self_after (login net self u p))"
| "call_run ios net self (TokenIsValid t) =
     (sent (token_is_valid net self t), self_after (token_is_valid net self t))"
| "call_run ios net self IsApiAvailable =
     (sent (is_api_available net self), self_after (is_api_available net self))"
| "call_run ios net self IsInitialized =
     (sent (is_initialized net self), self_after (is_initialized net self))"
| "call_run ios net self (CreateFirstUser u p) =
     (sent (create_first_user ios net self u p),
      self_after (create_first_user ios net self u p))"
| "call_run ios net self (GetCertificateRequestsTable t) =
     (sent (get_certificate_requests_table net self t),
      self_after (get_certificate_requests_table net self t))"
| "call_run ios net self (PostCsr c t) =
     (sent (post_csr net self c t), self_after (post_csr net self c t))"

text \<open>
  Running a list of calls on one object, each against the network as it is at that
  moment: the requests sent, oldest first, and the object at the end.
\<close>

fun run_calls ::
  "(string \<Rightarrow> int option) \<Rightarrow> GoCert \<Rightarrow> ((request \<Rightarrow> http_outcome) \<times> call) list \<Rightarrow>
   request list \<times> GoCert" where
  "run_calls ios self [] = ([], self)"
| "run_calls ios self ((net, c) # cs) =
     (case call_run ios net self c of
        (rq, self') \<Rightarrow>
          (case run_calls ios self' cs of (rqs, self'') \<Rightarrow> (rq # rqs, self'')))"

text \<open>The path each method requests, relative to the base URL.\<close>

fun call_path :: "call \<Rightarrow> string" where
  "call_path (Login u p) = ''/login''"
| "call_path (TokenIsValid t) = ''/accounts''"
| "call_path IsApiAvailable = ''/status''"
| "call_path IsInitialized = ''/status''"
| "call_path (CreateFirstUser u p) = ''/api/v1/accounts''"
| "call_path (GetCertificateRequestsTable t) = ''/api/v1/certificate_requests''"
| "call_path (PostCsr c t) = ''/api/v1/certificate_requests''"

subsection \<open>Vocabulary of the specification\<close>

text \<open>
  The specification's certificate request record: an integer identifier, a string
  request and a string certificate.
\<close>

fun is_int :: "pyval \<Rightarrow> bool" where
  "is_int (PInt n) = True"
| "is_int v = False"

fun is_str :: "pyval \<Rightarrow> bool" where
  "is_str (PStr s) = True"
| "is_str v = False"

definition typed_record :: "CertificateRequest \<Rightarrow> bool" where
  "typed_record row = (is_int (id' row) \<and> is_str (csr row) \<and> is_str (certificate row))"

text \<open>The value a JSON object holds under a key, \<open>None\<close> where the key is absent.\<close>

definition json_field :: "(string \<times> pyval) list \<Rightarrow> string \<Rightarrow> pyval" where
  "json_field kvs k = (case map_of kvs k of None \<Rightarrow> PNone | Some v \<Rightarrow> v)"

definition record_of :: "(string \<times> pyval) list \<Rightarrow> CertificateRequest" where
  "record_of kvs =
     \<lparr>id' = json_field kvs ''id'', csr = json_field kvs ''csr'',
      certificate = json_field kvs ''certificate''\<rparr>"

definition typed_element :: "(string \<times> pyval) list \<Rightarrow> bool" where
  "typed_element kvs =
     (is_int (json_field kvs ''id'') \<and> is_str (json_field kvs ''csr'') \<and>
      is_str (json_field kvs ''certificate''))"

text \<open>The status classes: 2xx, and the statuses \<open>raise_for_status\<close> rejects.\<close>

definition is_2xx :: "response \<Rightarrow> bool" where
  "is_2xx r = (200 \<le> status_code r \<and> status_code r < 300)"

definition is_error_status :: "response \<Rightarrow> bool" where
  "is_error_status r = (400 \<le> status_code r \<and> status_code r < 600)"

text \<open>
  The outcomes the \<open>except\<close> clause covers: a response, or an exception of class
  \<open>RequestException\<close> or \<open>OSError\<close>.
\<close>

definition handled :: "http_outcome \<Rightarrow> bool" where
  "handled out = (case requests_call out of Inl e \<Rightarrow> except_matches e | Inr r \<Rightarrow> True)"

text \<open>The double quote and a quoted word, for writing JSON texts.\<close>

definition dq :: string where
  "dq = [CHR 0x22]"

definition quoted :: "string \<Rightarrow> string" where
  "quoted s = dq @ s @ dq"

section \<open>Properties\<close>

subsection \<open>The try block\<close>


lemma try_block_Responded:
  "try_block (Responded r) = (Some r, raise_for_status r)"
  by (simp add: try_block_def)

lemma try_block_failed:
  "try_block TransportFailure = (None, Some ConnectionError)"
  "try_block TLSFailure = (None, Some SSLError)"
  "try_block CABundleUnreadable = (None, Some OSError)"
  by (simp_all add: try_block_def)

lemma error_status_raises:
  "raise_for_status r = (if is_error_status r then Some HTTPError else None)"
  by (simp add: raise_for_status_def is_error_status_def)

lemma is_2xx_not_error: "is_2xx r \<Longrightarrow> \<not> is_error_status r"
  by (simp add: is_2xx_def is_error_status_def)

lemma try_block_2xx: "is_2xx r \<Longrightarrow> try_block (Responded r) = (Some r, None)"
  by (simp add: try_block_Responded error_status_raises is_2xx_not_error)

lemma try_block_error:
  "is_error_status r \<Longrightarrow> try_block (Responded r) = (Some r, Some HTTPError)"
  by (simp add: try_block_Responded error_status_raises)

lemma try_block_raised:
  "try_block (CallRaises e) = (None, Some e)"
  by (simp add: try_block_def)

subsection \<open>Error policy\<close>

text \<open>
  Claim C1: every operation catches every failure of its HTTP call (transport failure,
  TLS failure, non-success status) and never propagates an exception. The handlers of
  \<open>login\<close>, \<open>create_first_user\<close>, \<open>get_certificate_requests_table\<close> and \<open>post_csr\<close> log
  \<open>req.status_code\<close> and \<open>req.text\<close>; when the call itself failed, \<open>req\<close> was never
  assigned, and the handler raises \<open>UnboundLocalError\<close>, which reaches the caller.
\<close>

theorem transport_failure_propagates:
  "outcome (login (\<lambda>rq. TransportFailure) self u p) = Inl UnboundLocalError \<and>
   outcome (create_first_user ios (\<lambda>rq. TransportFailure) self u p) = Inl UnboundLocalError \<and>
   outcome (get_certificate_requests_table (\<lambda>rq. TransportFailure) self t) =
     Inl UnboundLocalError \<and>
   outcome (post_csr (\<lambda>rq. TransportFailure) self c t) = Inl UnboundLocalError"
  by (simp add: login_def create_first_user_def get_certificate_requests_table_def
      post_csr_def try_block_failed read_local_def)

subsection \<open>login\<close>




subsection \<open>create\_first\_user\<close>

text \<open>
  Where the method does what its docstring says: a 4xx or 5xx answer gives \<open>None\<close>, and
  a 2xx answer whose JSON object holds a non-zero integer id gives that id.
\<close>

lemma create_first_user_nonzero_id:
  assumes resp: "net (create_first_user_request self u p) = Responded r"
  shows "(is_error_status r \<longrightarrow>
            outcome (create_first_user ios net self u p) = Inr None) \<and>
         (is_2xx r \<and> resp_json r = Inr (PDict kvs) \<and>
          map_of kvs ''id'' = Some (PInt n) \<and> n \<noteq> 0 \<longrightarrow>
            outcome (create_first_user ios net self u p) = Inr (Some n))"
proof (intro conjI impI)
  assume "is_error_status r"
  then have "try_block (net (create_first_user_request self u p)) = (Some r, Some HTTPError)"
    using resp by (simp add: try_block_error)
  then show "outcome (create_first_user ios net self u p) = Inr None"
    by (simp add: create_first_user_def read_local_def)
next
  assume a: "is_2xx r \<and> resp_json r = Inr (PDict kvs) \<and>
    map_of kvs ''id'' = Some (PInt n) \<and> n \<noteq> 0"
  then have tb: "try_block (net (create_first_user_request self u p)) = (Some r, None)"
    using resp by (simp add: try_block_2xx)
  from a have "json_call r = Inr (PDict kvs)"
    by (simp add: json_call_def)
  moreover from a have "py_get (PDict kvs) ''id'' PNone = Inr (PInt n)"
    by simp
  moreover from a have "int_if_truthy ios (PInt n) = Inr (Some n)"
    by (simp add: int_if_truthy_def)
  ultimately show "outcome (create_first_user ios net self u p) = Inr (Some n)"
    using tb by (simp add: create_first_user_def read_local_def)
qed

text \<open>
  Claim C3: for every username and password, \<open>create_first_user\<close> returns the new
  account's numeric id when \<open>POST /api/v1/accounts\<close> succeeds with a 2xx status, and
  \<open>None\<close> when the request failed. The code breaks it for the account whose id is 0:
  \<open>int(id) if id else None\<close> tests the truth of the id, zero is false, and the method
  returns \<open>None\<close> for a request that succeeded, which its docstring reserves for a
  request that failed.
\<close>

theorem create_first_user_zero_id_returns_none:
  "is_2xx \<lparr>status_code = 201, resp_text = ''{'' @ dq @ ''id'' @ dq @ '': 0}'',
           resp_json = Inr (PDict [(''id'', PInt 0)])\<rparr> \<and>
   outcome (create_first_user (\<lambda>s. None)
      (\<lambda>rq. Responded \<lparr>status_code = 201, resp_text = ''{'' @ dq @ ''id'' @ dq @ '': 0}'',
                        resp_json = Inr (PDict [(''id'', PInt 0)])\<rparr>)
      \<lparr>url = ''https://gocert:8000'', ca_path = Some ''/etc/ca.pem''\<rparr> ''admin'' ''Passw0rd'')
     = Inr None"
  by (simp add: is_2xx_def create_first_user_def try_block_Responded raise_for_status_def
      read_local_def json_call_def int_if_truthy_def)

subsection \<open>get\_certificate\_requests\_table\<close>

lemma row_of_dict: "row_of (PDict kvs) = Inr (record_of kvs)"
  by (simp add: row_of_def record_of_def json_field_def)

lemma comprehension_dicts: "comprehension (map PDict ds) = Inr (map record_of ds)"
  by (induction ds) (simp_all add: row_of_dict)

lemma rows_of_table_dicts: "rows_of_table (PList (map PDict ds)) = Inr (map record_of ds)"
  by (cases ds) (simp_all add: rows_of_table_def row_of_dict comprehension_dicts)

lemma typed_record_of: "typed_record (record_of kvs) = typed_element kvs"
  by (simp add: typed_record_def record_of_def typed_element_def)

text \<open>The comprehension yields one record per element, or none at all.\<close>

lemma comprehension_length:
  "comprehension cs = Inr rs \<Longrightarrow> length rs = length cs"
proof (induction cs arbitrary: rs)
  case Nil
  then show ?case by simp
next
  case (Cons c cs)
  then show ?case
    by (auto split: sum.splits)
qed

text \<open>
  Claim C4, as amended: for every fetch answered with a 2xx status and a JSON array of
  objects, \<open>get_certificate_requests_table\<close> returns a collection with exactly one record
  per element of the array, in the server's order; the identifier, request and
  certificate of each record are the values its element holds under \<open>"id"\<close>, \<open>"csr"\<close> and
  \<open>"certificate"\<close> (\<open>None\<close> where the key is absent), so the records are an integer and
  two strings exactly when the server's elements are.
\<close>

theorem table_rows_follow_server:
  assumes resp: "net (certificate_requests_request self token) = Responded r"
    and ok: "is_2xx r"
    and body: "resp_json r = Inr (PList (map PDict ds))"
  shows "outcome (get_certificate_requests_table net self token) =
           Inr (Some \<lparr>rows = map record_of ds\<rparr>) \<and>
         list_all typed_record (map record_of ds) = list_all typed_element ds"
proof
  have "try_block (net (certificate_requests_request self token)) = (Some r, None)"
    using resp ok by (simp add: try_block_2xx)
  moreover have "json_call r = Inr (PList (map PDict ds))"
    using body by (simp add: json_call_def)
  ultimately show "outcome (get_certificate_requests_table net self token) =
      Inr (Some \<lparr>rows = map record_of ds\<rparr>)"
    by (simp add: get_certificate_requests_table_def read_local_def rows_of_table_dicts)
  show "list_all typed_record (map record_of ds) = list_all typed_element ds"
    by (induction ds) (simp_all add: typed_record_of)
qed

theorem table_rows_follow_server_witness:
  "outcome (get_certificate_requests_table
      (\<lambda>rq. Responded \<lparr>status_code = 200, resp_text = (''[{'' @ quoted ''id'' @ '': 1, '' @ quoted ''csr'' @ '': '' @ quoted ''CSR1'' @ '', ''
              @ quoted ''certificate'' @ '': '' @ quoted [] @ ''}, {''
              @ quoted ''id'' @ '': 2, '' @ quoted ''csr'' @ '': '' @ quoted ''CSR2'' @ '', ''
              @ quoted ''certificate'' @ '': '' @ quoted ''CERT2'' @ ''}]''),
          resp_json = Inr (PList
            [PDict [(''id'', PInt 1), (''csr'', PStr ''CSR1''), (''certificate'', PStr [])],
             PDict [(''id'', PInt 2), (''csr'', PStr ''CSR2''), (''certificate'', PStr ''CERT2'')]])\<rparr>)
      \<lparr>url = ''https://gocert:8000'', ca_path = Some ''/etc/ca.pem''\<rparr> ''token'')
     = Inr (Some \<lparr>rows =
         [\<lparr>id' = PInt 1, csr = PStr ''CSR1'', certificate = PStr []\<rparr>,
          \<lparr>id' = PInt 2, csr = PStr ''CSR2'', certificate = PStr ''CERT2''\<rparr>]\<rparr>)"
  using table_rows_follow_server [where net = "\<lambda>rq. Responded \<lparr>status_code = 200,
          resp_text = (''[{'' @ quoted ''id'' @ '': 1, '' @ quoted ''csr'' @ '': '' @ quoted ''CSR1'' @ '', ''
              @ quoted ''certificate'' @ '': '' @ quoted [] @ ''}, {''
              @ quoted ''id'' @ '': 2, '' @ quoted ''csr'' @ '': '' @ quoted ''CSR2'' @ '', ''
              @ quoted ''certificate'' @ '': '' @ quoted ''CERT2'' @ ''}]''),
          resp_json = Inr (PList
            [PDict [(''id'', PInt 1), (''csr'', PStr ''CSR1''), (''certificate'', PStr [])],
             PDict [(''id'', PInt 2), (''csr'', PStr ''CSR2''), (''certificate'', PStr ''CERT2'')]])\<rparr>"
      and self = "\<lparr>url = ''https://gocert:8000'', ca_path = Some ''/etc/ca.pem''\<rparr>"
      and token = "''token''"
      and r = "\<lparr>status_code = 200, resp_text = (''[{'' @ quoted ''id'' @ '': 1, '' @ quoted ''csr'' @ '': '' @ quoted ''CSR1'' @ '', ''
              @ quoted ''certificate'' @ '': '' @ quoted [] @ ''}, {''
              @ quoted ''id'' @ '': 2, '' @ quoted ''csr'' @ '': '' @ quoted ''CSR2'' @ '', ''
              @ quoted ''certificate'' @ '': '' @ quoted ''CERT2'' @ ''}]''),
          resp_json = Inr (PList
            [PDict [(''id'', PInt 1), (''csr'', PStr ''CSR1''), (''certificate'', PStr [])],
             PDict [(''id'', PInt 2), (''csr'', PStr ''CSR2''), (''certificate'', PStr ''CERT2'')]])\<rparr>"
      and ds = "[[(''id'', PInt 1), (''csr'', PStr ''CSR1''), (''certificate'', PStr [])],
             [(''id'', PInt 2), (''csr'', PStr ''CSR2''), (''certificate'', PStr ''CERT2'')]]"]
  by (simp add: is_2xx_def record_of_def json_field_def)

text \<open>
  The claim as written fails when an element of the server's array lacks a key: the
  record is built all the same, with \<open>None\<close> in place of the string.
\<close>

theorem table_untyped_row_counterexample:
  "outcome (get_certificate_requests_table
      (\<lambda>rq. Responded \<lparr>status_code = 200,
          resp_text = ''[{'' @ dq @ ''id'' @ dq @ '': 1, '' @ dq @ ''csr'' @ dq @ '': ''
                      @ dq @ ''CSR1'' @ dq @ ''}]'',
          resp_json = Inr (PList [PDict [(''id'', PInt 1), (''csr'', PStr ''CSR1'')]])\<rparr>)
      \<lparr>url = ''https://gocert:8000'', ca_path = Some ''/etc/ca.pem''\<rparr> ''token'')
     = Inr (Some \<lparr>rows = [\<lparr>id' = PInt 1, csr = PStr ''CSR1'', certificate = PNone\<rparr>]\<rparr>) \<and>
   \<not> typed_record \<lparr>id' = PInt 1, csr = PStr ''CSR1'', certificate = PNone\<rparr>"
  by (simp add: get_certificate_requests_table_def try_block_Responded raise_for_status_def
      read_local_def json_call_def rows_of_table_def row_of_def typed_record_def)

text \<open>
  Claim C6: when the server answers \<open>GET /api/v1/certificate_requests\<close> with a 2xx
  status and an empty table (the JSON array \<open>[]\<close>, or \<open>null\<close>),
  \<open>get_certificate_requests_table\<close> returns a collection whose row list is empty, not
  \<open>None\<close>.
\<close>

theorem empty_table_is_empty_collection:
  assumes resp: "net (certificate_requests_request self token) = Responded r"
    and ok: "is_2xx r"
    and body: "resp_json r = Inr (PList []) \<or> resp_json r = Inr PNone"
  shows "outcome (get_certificate_requests_table net self token) = Inr (Some \<lparr>rows = []\<rparr>)"
proof -
  have tb: "try_block (net (certificate_requests_request self token)) = (Some r, None)"
    using resp ok by (simp add: try_block_2xx)
  from body obtain tbl where "json_call r = Inr tbl" and "rows_of_table tbl = Inr []"
    by (auto simp: json_call_def rows_of_table_def)
  with tb show ?thesis
    by (simp add: get_certificate_requests_table_def read_local_def)
qed

theorem empty_table_is_empty_collection_witness:
  "outcome (get_certificate_requests_table
      (\<lambda>rq. Responded \<lparr>status_code = 200, resp_text = ''[]'', resp_json = Inr (PList [])\<rparr>)
      \<lparr>url = ''https://gocert:8000'', ca_path = Some ''/etc/ca.pem''\<rparr> ''token'')
     = Inr (Some \<lparr>rows = []\<rparr>) \<and>
   outcome (get_certificate_requests_table
      (\<lambda>rq. Responded \<lparr>status_code = 200, resp_text = ''null'', resp_json = Inr PNone\<rparr>)
      \<lparr>url = ''https://gocert:8000'', ca_path = Some ''/etc/ca.pem''\<rparr> ''token'')
     = Inr (Some \<lparr>rows = []\<rparr>)"
  using
    empty_table_is_empty_collection [where net = "\<lambda>rq. Responded \<lparr>status_code = 200,
          resp_text = ''[]'', resp_json = Inr (PList [])\<rparr>"
      and self = "\<lparr>url = ''https://gocert:8000'', ca_path = Some ''/etc/ca.pem''\<rparr>"
      and token = "''token''"
      and r = "\<lparr>status_code = 200, resp_text = ''[]'', resp_json = Inr (PList [])\<rparr>"]
    empty_table_is_empty_collection [where net = "\<lambda>rq. Responded \<lparr>status_code = 200,
          resp_text = ''null'', resp_json = Inr PNone\<rparr>"
      and self = "\<lparr>url = ''https://gocert:8000'', ca_path = Some ''/etc/ca.pem''\<rparr>"
      and token = "''token''"
      and r = "\<lparr>status_code = 200, resp_text = ''null'', resp_json = Inr PNone\<rparr>"]
  by (simp add: is_2xx_def)

subsection \<open>post\_csr\<close>



subsection \<open>is\_initialized\<close>

text \<open>
  Claim C7, as amended: \<open>is_initialized\<close> returns \<open>False\<close> when the JSON object in the
  body of the \<open>GET /status\<close> response has no \<open>"initialized"\<close> field, when the response
  has a 4xx or 5xx status, and when the call gets no response (transport failure, TLS
  failure, unreadable CA bundle).
\<close>

theorem is_initialized_false:
  "(net (status_request self) = Responded r \<and> resp_json r = Inr (PDict kvs) \<and>
      map_of kvs ''initialized'' = None \<longrightarrow>
        outcome (is_initialized net self) = Inr (PBool False)) \<and>
   (net (status_request self) = Responded r \<and> is_error_status r \<longrightarrow>
        outcome (is_initialized net self) = Inr (PBool False)) \<and>
   (net (status_request self) \<in> {TransportFailure, TLSFailure, CABundleUnreadable} \<longrightarrow>
        outcome (is_initialized net self) = Inr (PBool False))"
proof (intro conjI impI)
  assume a: "net (status_request self) = Responded r \<and> resp_json r = Inr (PDict kvs) \<and>
      map_of kvs ''initialized'' = None"
  show "outcome (is_initialized net self) = Inr (PBool False)"
  proof (cases "is_error_status r")
    case True
    with a show ?thesis
      by (simp add: is_initialized_def try_block_error)
  next
    case False
    with a have "try_block (net (status_request self)) = (Some r, None)"
      by (simp add: try_block_Responded error_status_raises)
    moreover from a have "json_call r = Inr (PDict kvs)"
      by (simp add: json_call_def)
    ultimately show ?thesis
      using a by (simp add: is_initialized_def read_local_def)
  qed
next
  assume "net (status_request self) = Responded r \<and> is_error_status r"
  then show "outcome (is_initialized net self) = Inr (PBool False)"
    by (simp add: is_initialized_def try_block_error)
next
  assume "net (status_request self) \<in> {TransportFailure, TLSFailure, CABundleUnreadable}"
  then show "outcome (is_initialized net self) = Inr (PBool False)"
    by (auto simp: is_initialized_def try_block_failed)
qed

theorem is_initialized_false_witness:
  "outcome (is_initialized
      (\<lambda>rq. Responded \<lparr>status_code = 200, resp_text = ''{}'', resp_json = Inr (PDict [])\<rparr>)
      \<lparr>url = ''https://gocert:8000'', ca_path = Some ''/etc/ca.pem''\<rparr>)
     = Inr (PBool False) \<and>
   outcome (is_initialized
      (\<lambda>rq. Responded \<lparr>status_code = 503, resp_text = ''unavailable'', resp_json = Inl JSONDecodeError\<rparr>)
      \<lparr>url = ''https://gocert:8000'', ca_path = Some ''/etc/ca.pem''\<rparr>)
     = Inr (PBool False) \<and>
   outcome (is_initialized (\<lambda>rq. TransportFailure)
      \<lparr>url = ''https://gocert:8000'', ca_path = Some ''/etc/ca.pem''\<rparr>)
     = Inr (PBool False)"
  using
    is_initialized_false [where net = "\<lambda>rq. Responded \<lparr>status_code = 200, resp_text = ''{}'',
          resp_json = Inr (PDict [])\<rparr>"
      and self = "\<lparr>url = ''https://gocert:8000'', ca_path = Some ''/etc/ca.pem''\<rparr>"
      and r = "\<lparr>status_code = 200, resp_text = ''{}'', resp_json = Inr (PDict [])\<rparr>"
      and kvs = "[]"]
    is_initialized_false [where net = "\<lambda>rq. Responded \<lparr>status_code = 503,
          resp_text = ''unavailable'', resp_json = Inl JSONDecodeError\<rparr>"
      and self = "\<lparr>url = ''https://gocert:8000'', ca_path = Some ''/etc/ca.pem''\<rparr>"
      and r = "\<lparr>status_code = 503, resp_text = ''unavailable'', resp_json = Inl JSONDecodeError\<rparr>"]
    is_initialized_false [where net = "\<lambda>rq. TransportFailure"
      and self = "\<lparr>url = ''https://gocert:8000'', ca_path = Some ''/etc/ca.pem''\<rparr>"]
  by (simp add: is_error_status_def)

text \<open>
  The claim as written fails at a status that is neither 2xx nor an error: a 300 answer
  passes \<open>raise_for_status\<close>, and \<open>is_initialized\<close> returns what its body says.
\<close>

theorem is_initialized_non_2xx_counterexample:
  "\<not> is_2xx \<lparr>status_code = 300,
             resp_text = ''{'' @ dq @ ''initialized'' @ dq @ '': true}'',
             resp_json = Inr (PDict [(''initialized'', PBool True)])\<rparr> \<and>
   outcome (is_initialized
      (\<lambda>rq. Responded \<lparr>status_code = 300,
             resp_text = ''{'' @ dq @ ''initialized'' @ dq @ '': true}'',
             resp_json = Inr (PDict [(''initialized'', PBool True)])\<rparr>)
      \<lparr>url = ''https://gocert:8000'', ca_path = Some ''/etc/ca.pem''\<rparr>)
     = Inr (PBool True)"
  by (simp add: is_2xx_def is_initialized_def try_block_Responded raise_for_status_def
      read_local_def json_call_def)

subsection \<open>token\_is\_valid and is\_api\_available\<close>

lemma token_is_valid_outcome:
  "outcome (token_is_valid net self token) =
     (case requests_call (net (token_is_valid_request self token)) of
        Inl e \<Rightarrow> if except_matches e then Inr False else Inl e
      | Inr r \<Rightarrow> Inr (\<not> is_error_status r))"
  by (simp add: token_is_valid_def try_block_def error_status_raises split: sum.splits)

lemma is_api_available_outcome:
  "outcome (is_api_available net self) =
     (case requests_call (net (status_request self)) of
        Inl e \<Rightarrow> if except_matches e then Inr False else Inl e
      | Inr r \<Rightarrow> Inr (\<not> is_error_status r))"
  by (simp add: is_api_available_def try_block_def error_status_raises split: sum.splits)

text \<open>
  Claim C8, as amended: for every token, \<open>token_is_valid\<close> returns \<open>True\<close> if and only if
  the \<open>GET /accounts\<close> request with that bearer token is answered with a status outside
  400 to 599; a 4xx or 5xx status yields \<open>False\<close>, and so does every failure of the call
  that \<open>requests\<close> raises as a \<open>RequestException\<close> or an \<open>OSError\<close> (transport and TLS
  errors).
\<close>

theorem token_is_valid_iff:
  "((outcome (token_is_valid net self token) = Inr True) =
      (\<exists>r. net (token_is_valid_request self token) = Responded r \<and> \<not> is_error_status r)) \<and>
   (net (token_is_valid_request self token) = Responded r \<and> is_error_status r \<longrightarrow>
      outcome (token_is_valid net self token) = Inr False) \<and>
   (requests_call (net (token_is_valid_request self token)) = Inl e \<and> except_matches e \<longrightarrow>
      outcome (token_is_valid net self token) = Inr False)"
proof (intro conjI impI)
  show "(outcome (token_is_valid net self token) = Inr True) =
      (\<exists>r. net (token_is_valid_request self token) = Responded r \<and> \<not> is_error_status r)"
  proof (cases "net (token_is_valid_request self token)")
    case (Responded r)
    then show ?thesis
      by (simp add: token_is_valid_outcome)
  next
    case (CallRaises e)
    then show ?thesis
      by (simp add: token_is_valid_outcome)
  qed (simp_all add: token_is_valid_outcome)
next
  assume "net (token_is_valid_request self token) = Responded r \<and> is_error_status r"
  then show "outcome (token_is_valid net self token) = Inr False"
    by (simp add: token_is_valid_outcome)
next
  assume "requests_call (net (token_is_valid_request self token)) = Inl e \<and> except_matches e"
  then show "outcome (token_is_valid net self token) = Inr False"
    by (simp add: token_is_valid_outcome)
qed

theorem token_is_valid_iff_witness:
  "outcome (token_is_valid
      (\<lambda>rq. Responded \<lparr>status_code = 200, resp_text = ''[]'', resp_json = Inr (PList [])\<rparr>)
      \<lparr>url = ''https://gocert:8000'', ca_path = Some ''/etc/ca.pem''\<rparr> ''token'')
     = Inr True \<and>
   outcome (token_is_valid
      (\<lambda>rq. Responded \<lparr>status_code = 401, resp_text = ''denied'',
                        resp_json = Inl JSONDecodeError\<rparr>)
      \<lparr>url = ''https://gocert:8000'', ca_path = Some ''/etc/ca.pem''\<rparr> ''stale'')
     = Inr False \<and>
   outcome (token_is_valid (\<lambda>rq. TransportFailure)
      \<lparr>url = ''https://gocert:8000'', ca_path = Some ''/etc/ca.pem''\<rparr> ''token'')
     = Inr False"
  using
    token_is_valid_iff [where net = "\<lambda>rq. Responded \<lparr>status_code = 200, resp_text = ''[]'',
          resp_json = Inr (PList [])\<rparr>"
      and self = "\<lparr>url = ''https://gocert:8000'', ca_path = Some ''/etc/ca.pem''\<rparr>"
      and token = "''token''"]
    token_is_valid_iff [where net = "\<lambda>rq. Responded \<lparr>status_code = 401,
          resp_text = ''denied'', resp_json = Inl JSONDecodeError\<rparr>"
      and self = "\<lparr>url = ''https://gocert:8000'', ca_path = Some ''/etc/ca.pem''\<rparr>"
      and token = "''stale''"
      and r = "\<lparr>status_code = 401, resp_text = ''denied'', resp_json = Inl JSONDecodeError\<rparr>"]
    token_is_valid_iff [where net = "\<lambda>rq. TransportFailure"
      and self = "\<lparr>url = ''https://gocert:8000'', ca_path = Some ''/etc/ca.pem''\<rparr>"
      and token = "''token''" and e = ConnectionError]
  by (simp add: is_error_status_def)

text \<open>
  The claim as written fails at a status that is neither 2xx nor an error: a 300 answer
  makes \<open>token_is_valid\<close> return \<open>True\<close>.
\<close>

theorem token_is_valid_non_2xx_counterexample:
  "\<not> is_2xx \<lparr>status_code = 300, resp_text = ''Multiple Choices'',
             resp_json = Inl JSONDecodeError\<rparr> \<and>
   outcome (token_is_valid
      (\<lambda>rq. Responded \<lparr>status_code = 300, resp_text = ''Multiple Choices'',
                        resp_json = Inl JSONDecodeError\<rparr>)
      \<lparr>url = ''https://gocert:8000'', ca_path = Some ''/etc/ca.pem''\<rparr> ''token'')
     = Inr True"
  by (simp add: is_2xx_def token_is_valid_def try_block_Responded raise_for_status_def)

text \<open>
  Claim C10, as amended: \<open>token_is_valid\<close> and \<open>is_api_available\<close> return exactly
  \<open>True\<close> or \<open>False\<close>, and raise nothing, for every outcome of the HTTP call that is a
  response or an exception of class \<open>RequestException\<close> or \<open>OSError\<close>; among these, a
  transport failure, a TLS failure and an unreadable CA bundle, where no response
  object exists, give \<open>False\<close>, because the error branches do not read the response
  object. An exception of any other class raised by \<open>requests.get\<close> is not caught and
  reaches the caller.
\<close>

theorem boolean_checks_total:
  "(handled (net (token_is_valid_request self token)) \<longrightarrow>
      outcome (token_is_valid net self token) = Inr True \<or>
      outcome (token_is_valid net self token) = Inr False) \<and>
   (handled (net (status_request self)) \<longrightarrow>
      outcome (is_api_available net self) = Inr True \<or>
      outcome (is_api_available net self) = Inr False) \<and>
   (net (token_is_valid_request self token) \<in> {TransportFailure, TLSFailure, CABundleUnreadable} \<longrightarrow>
      outcome (token_is_valid net self token) = Inr False) \<and>
   (net (status_request self) \<in> {TransportFailure, TLSFailure, CABundleUnreadable} \<longrightarrow>
      outcome (is_api_available net self) = Inr False) \<and>
   (net (token_is_valid_request self token) = CallRaises e \<and> \<not> except_matches e \<longrightarrow>
      outcome (token_is_valid net self token) = Inl e) \<and>
   (net (status_request self) = CallRaises e \<and> \<not> except_matches e \<longrightarrow>
      outcome (is_api_available net self) = Inl e)"
proof (intro conjI impI)
  assume "handled (net (token_is_valid_request self token))"
  then show "outcome (token_is_valid net self token) = Inr True \<or>
      outcome (token_is_valid net self token) = Inr False"
    by (auto simp: handled_def token_is_valid_outcome split: sum.splits)
next
  assume "handled (net (status_request self))"
  then show "outcome (is_api_available net self) = Inr True \<or>
      outcome (is_api_available net self) = Inr False"
    by (auto simp: handled_def is_api_available_outcome split: sum.splits)
next
  assume "net (token_is_valid_request self token) \<in> {TransportFailure, TLSFailure, CABundleUnreadable}"
  then show "outcome (token_is_valid net self token) = Inr False"
    by (auto simp: token_is_valid_outcome)
next
  assume "net (status_request self) \<in> {TransportFailure, TLSFailure, CABundleUnreadable}"
  then show "outcome (is_api_available net self) = Inr False"
    by (auto simp: is_api_available_outcome)
next
  assume "net (token_is_valid_request self token) = CallRaises e \<and> \<not> except_matches e"
  then show "outcome (token_is_valid net self token) = Inl e"
    by (simp add: token_is_valid_outcome)
next
  assume "net (status_request self) = CallRaises e \<and> \<not> except_matches e"
  then show "outcome (is_api_available net self) = Inl e"
    by (simp add: is_api_available_outcome)
qed

theorem boolean_checks_total_witness:
  "outcome (token_is_valid (\<lambda>rq. TLSFailure)
      \<lparr>url = ''https://gocert:8000'', ca_path = Some ''/etc/ca.pem''\<rparr> ''token'')
     = Inr False \<and>
   outcome (is_api_available (\<lambda>rq. TLSFailure)
      \<lparr>url = ''https://gocert:8000'', ca_path = Some ''/etc/ca.pem''\<rparr>)
     = Inr False \<and>
   outcome (token_is_valid (\<lambda>rq. CallRaises LocationParseError)
      \<lparr>url = ''https://'' @ replicate 64 (CHR ''a'') @ ''.test'', ca_path = None\<rparr> ''token'')
     = Inl LocationParseError \<and>
   outcome (is_api_available (\<lambda>rq. CallRaises LocationParseError)
      \<lparr>url = ''https://'' @ replicate 64 (CHR ''a'') @ ''.test'', ca_path = None\<rparr>)
     = Inl LocationParseError"
  using
    boolean_checks_total [where net = "\<lambda>rq. TLSFailure"
      and self = "\<lparr>url = ''https://gocert:8000'', ca_path = Some ''/etc/ca.pem''\<rparr>"
      and token = "''token''"]
    boolean_checks_total [where net = "\<lambda>rq. CallRaises LocationParseError"
      and self = "\<lparr>url = ''https://'' @ replicate 64 (CHR ''a'') @ ''.test'', ca_path = None\<rparr>"
      and token = "''token''" and e = LocationParseError]
  by (simp add: handled_def)

text \<open>
  The claim as written fails when \<open>requests.get\<close> raises an exception the \<open>except\<close>
  clause does not name: a token that ends in a newline passes the header check of
  \<open>requests\<close> and makes \<open>http.client\<close> raise \<open>ValueError\<close>, which \<open>token_is_valid\<close> lets
  through to the caller.
\<close>

theorem boolean_checks_raise_counterexample:
  "outcome (token_is_valid (\<lambda>rq. CallRaises ValueError)
      \<lparr>url = ''https://gocert:8000'', ca_path = Some ''/etc/ca.pem''\<rparr> (''token'' @ [CHR 0x0A]))
     = Inl ValueError \<and>
   outcome (token_is_valid (\<lambda>rq. CallRaises ValueError)
      \<lparr>url = ''https://gocert:8000'', ca_path = Some ''/etc/ca.pem''\<rparr> (''token'' @ [CHR 0x0A]))
     \<noteq> Inr True \<and>
   outcome (token_is_valid (\<lambda>rq. CallRaises ValueError)
      \<lparr>url = ''https://gocert:8000'', ca_path = Some ''/etc/ca.pem''\<rparr> (''token'' @ [CHR 0x0A]))
     \<noteq> Inr False"
  by (simp add: token_is_valid_def try_block_def)

subsection \<open>The configuration\<close>

text \<open>Every method sends the request it builds and returns the object it was given.\<close>

lemma login_frame:
  "sent (login net self u p) = login_request self u p \<and>
   self_after (login net self u p) = self"
  by (simp add: login_def Let_def split: prod.splits option.splits sum.splits)

lemma token_is_valid_frame:
  "sent (token_is_valid net self t) = token_is_valid_request self t \<and>
   self_after (token_is_valid net self t) = self"
  by (simp add: token_is_valid_def Let_def split: prod.splits option.splits)

lemma is_api_available_frame:
  "sent (is_api_available net self) = status_request self \<and>
   self_after (is_api_available net self) = self"
  by (simp add: is_api_available_def Let_def split: prod.splits option.splits)

lemma is_initialized_frame:
  "sent (is_initialized net self) = status_request self \<and>
   self_after (is_initialized net self) = self"
  by (simp add: is_initialized_def Let_def split: prod.splits option.splits sum.splits)

lemma create_first_user_frame:
  "sent (create_first_user ios net self u p) = create_first_user_request self u p \<and>
   self_after (create_first_user ios net self u p) = self"
  by (simp add: create_first_user_def Let_def split: prod.splits option.splits sum.splits)

lemma get_certificate_requests_table_frame:
  "sent (get_certificate_requests_table net self t) = certificate_requests_request self t \<and>
   self_after (get_certificate_requests_table net self t) = self"
  by (simp add: get_certificate_requests_table_def Let_def
      split: prod.splits option.splits sum.splits)

lemma post_csr_frame:
  "sent (post_csr net self c t) = post_csr_request self c t \<and>
   self_after (post_csr net self c t) = self"
  by (simp add: post_csr_def Let_def split: prod.splits option.splits sum.splits)

lemmas frames =
  login_frame token_is_valid_frame is_api_available_frame is_initialized_frame
  create_first_user_frame get_certificate_requests_table_frame post_csr_frame

lemmas request_defs =
  login_request_def token_is_valid_request_def status_request_def
  create_first_user_request_def certificate_requests_request_def post_csr_request_def

lemma call_run_frame:
  "snd (call_run ios net self c) = self \<and>
   req_url (fst (call_run ios net self c)) = url self @ call_path c \<and>
   verify (fst (call_run ios net self c)) = verify_arg self"
  by (cases c) (simp_all add: frames request_defs API_VERSION_def)

lemma run_calls_frame:
  "snd (run_calls ios self ncs) = self \<and>
   map req_url (fst (run_calls ios self ncs)) = map (\<lambda>nc. url self @ call_path (snd nc)) ncs \<and>
   map verify (fst (run_calls ios self ncs)) = map (\<lambda>nc. verify_arg self) ncs"
proof (induction ncs)
  case Nil
  show ?case by simp
next
  case (Cons nc ncs)
  obtain net c where nc: "nc = (net, c)"
    by (cases nc)
  obtain rq self' where step: "call_run ios net self c = (rq, self')"
    by (cases "call_run ios net self c")
  with call_run_frame [of ios net self c]
  have self': "self' = self"
    and rq: "req_url rq = url self @ call_path c" "verify rq = verify_arg self"
    by simp_all
  obtain rqs self'' where rest: "run_calls ios self ncs = (rqs, self'')"
    by (cases "run_calls ios self ncs")
  with Cons.IH have "self'' = self"
    and "map req_url rqs = map (\<lambda>nc. url self @ call_path (snd nc)) ncs"
    and "map verify rqs = map (\<lambda>nc. verify_arg self) ncs"
    by simp_all
  with nc step self' rq rest show ?case
    by simp
qed

text \<open>
  Claim C9: the configuration set by the constructor never changes. After any sequence
  of calls of any of the seven methods, against any network, the object still holds the
  base URL and the CA path it was constructed with; every request of the sequence went
  to the base URL followed by the method's path, and verified TLS against the
  configured CA path (the default trust store when the path is absent or empty).
\<close>

theorem configuration_is_immutable:
  "url (init u p) = u \<and> ca_path (init u p) = p \<and>
   snd (run_calls ios (init u p) ncs) = init u p \<and>
   map req_url (fst (run_calls ios (init u p) ncs)) = map (\<lambda>nc. u @ call_path (snd nc)) ncs \<and>
   map verify (fst (run_calls ios (init u p) ncs)) =
     map (\<lambda>nc. case p of None \<Rightarrow> None | Some s \<Rightarrow> if s = [] then None else Some s) ncs"
proof -
  have "verify_arg (init u p) = (case p of None \<Rightarrow> None | Some s \<Rightarrow> if s = [] then None else Some s)"
    by (simp add: verify_arg_def init_def split: option.splits)
  moreover have "url (init u p) = u" "ca_path (init u p) = p"
    by (simp_all add: init_def)
  ultimately show ?thesis
    using run_calls_frame [of ios "init u p" ncs] by simp
qed

end
